theory Spec2Isabelle
  imports Complex_Main
begin

section \<open>Errors\<close>

text \<open>
  Every \<^verbatim>\<open>throw new Error(msg)\<close> of the source is \<open>Error msg\<close>; the two exceptions
  the runtime itself raises in the modelled code are \<open>TypeError\<close> (a property read on
  \<^verbatim>\<open>undefined\<close> or \<^verbatim>\<open>null\<close>) and \<open>IndexSizeError\<close> (a \<^verbatim>\<open>TimeRanges\<close> index out of range).
  A function that can throw returns \<open>error + 'a\<close>, with \<open>Inl\<close> the exception.
\<close>

datatype error = Error string | TypeError | IndexSizeError

section \<open>JavaScript numbers\<close>

text \<open>
  A number is a finite value or one of \<^verbatim>\<open>NaN\<close>, \<^verbatim>\<open>Infinity\<close>, \<^verbatim>\<open>-Infinity\<close>. Every finite
  double is a rational, so \<open>Num\<close> covers every finite input; the operations are exact
  (the rounding of doubles is not modelled) and negative zero is not told apart from
  zero. \<^verbatim>\<open>undefined\<close> in arithmetic is \<open>NaN\<close>.
\<close>

datatype number = Num rat | NaN | Infinity | NegInfinity

fun num_sign :: "number \<Rightarrow> int" where
  "num_sign (Num x) = (if 0 < x then 1 else if x < 0 then - 1 else 0)"
| "num_sign Infinity = 1"
| "num_sign NegInfinity = - 1"
| "num_sign NaN = 0"

definition signed_inf :: "int \<Rightarrow> number" where
  "signed_inf s = (if 0 < s then Infinity else if s < 0 then NegInfinity else NaN)"

text \<open>\<^verbatim>\<open>a * b\<close>: zero times an infinity is \<open>NaN\<close>.\<close>

fun times_n :: "number \<Rightarrow> number \<Rightarrow> number" where
  "times_n (Num x) (Num y) = Num (x * y)"
| "times_n NaN b = NaN"
| "times_n a NaN = NaN"
| "times_n a b = signed_inf (num_sign a * num_sign b)"

text \<open>
  \<^verbatim>\<open>a / b\<close>: a finite non-zero value over zero is an infinity of its sign, zero over zero
  and an infinity over an infinity are \<open>NaN\<close>, a finite value over an infinity is zero.
\<close>

fun divide_n :: "number \<Rightarrow> number \<Rightarrow> number" where
  "divide_n (Num x) (Num y) = (if y = 0 then signed_inf (num_sign (Num x)) else Num (x / y))"
| "divide_n NaN b = NaN"
| "divide_n a NaN = NaN"
| "divide_n (Num x) b = Num 0"
| "divide_n a (Num y) = signed_inf (num_sign a * (if y < 0 then - 1 else 1))"
| "divide_n a b = NaN"

fun minus_n :: "number \<Rightarrow> number \<Rightarrow> number" where
  "minus_n (Num x) (Num y) = Num (x - y)"
| "minus_n NaN b = NaN"
| "minus_n a NaN = NaN"
| "minus_n (Num x) Infinity = NegInfinity"
| "minus_n (Num x) NegInfinity = Infinity"
| "minus_n Infinity Infinity = NaN"
| "minus_n NegInfinity NegInfinity = NaN"
| "minus_n Infinity b = Infinity"
| "minus_n NegInfinity b = NegInfinity"

text \<open>\<^verbatim>\<open>a < b\<close> and \<^verbatim>\<open>a <= b\<close>: false as soon as an operand is \<open>NaN\<close>.\<close>

fun less_n :: "number \<Rightarrow> number \<Rightarrow> bool" where
  "less_n (Num x) (Num y) = (x < y)"
| "less_n NaN b = False"
| "less_n a NaN = False"
| "less_n a NegInfinity = False"
| "less_n Infinity b = False"
| "less_n a b = True"


text \<open>\<^verbatim>\<open>Math.floor\<close>, and \<^verbatim>\<open>Math.round\<close>, which is \<open>\<lfloor>x + 1/2\<rfloor>\<close> (halves go up).\<close>

fun floor_n :: "number \<Rightarrow> number" where
  "floor_n (Num x) = Num (of_int \<lfloor>x\<rfloor>)"
| "floor_n a = a"

fun round_n :: "number \<Rightarrow> number" where
  "round_n (Num x) = Num (of_int \<lfloor>x + 1 / 2\<rfloor>)"
| "round_n a = a"

text \<open>Decimal digits of a natural number, most significant first.\<close>

definition digit :: "nat \<Rightarrow> char" where
  "digit d = char_of (48 + d)"

function show_nat :: "nat \<Rightarrow> string" where
  "show_nat n = (if n < 10 then [digit n] else show_nat (n div 10) @ [digit (n mod 10)])"
  by pat_completeness auto
termination
  by (relation "measure id") auto

declare show_nat.simps [simp del]

definition show_int :: "int \<Rightarrow> string" where
  "show_int i = (if i < 0 then CHR ''-'' # show_nat (nat (- i)) else show_nat (nat i))"

text \<open>
  The string a number becomes in \<^verbatim>\<open>'0' + n\<close> and \<^verbatim>\<open>n + ''\<close>. The source applies it to
  results of \<^verbatim>\<open>Math.floor\<close> and \<^verbatim>\<open>Math.round\<close> only, that is to integral values and the
  three special values; an integral value prints its decimal digits (JavaScript does so
  below \<open>10^21\<close>).
\<close>

fun toString :: "number \<Rightarrow> string" where
  "toString (Num x) = show_int \<lfloor>x\<rfloor>"
| "toString NaN = ''NaN''"
| "toString Infinity = ''Infinity''"
| "toString NegInfinity = ''-Infinity''"

section \<open>Regular expressions\<close>

text \<open>
  The two regular expression literals of the source are values of \<open>regex\<close>, run by a
  backtracking matcher that follows the ECMAScript semantics of the constructs they
  use: character atoms, sequence, alternation in source order, the greedy star, capture
  groups and the \<^verbatim>\<open>^\<close> assertion (no flags are set). Strings are lists of 8-bit characters, of
  which only LF and CR are line terminators.
\<close>

datatype cls = Lit char | AnyChar | WordChar | NoneOf "char list"

definition isLineTerminator :: "char \<Rightarrow> bool" where
  "isLineTerminator c = (c = CHR 0x0A \<or> c = CHR 0x0D)"

definition isWordChar :: "char \<Rightarrow> bool" where
  "isWordChar c =
     (let n = (of_char c :: nat)
      in (97 \<le> n \<and> n \<le> 122) \<or> (65 \<le> n \<and> n \<le> 90) \<or> (48 \<le> n \<and> n \<le> 57) \<or> n = 95)"

text \<open>\<open>Lit a\<close> is the character \<open>a\<close>, \<open>AnyChar\<close> is \<^verbatim>\<open>.\<close>, \<open>WordChar\<close> is \<^verbatim>\<open>\w\<close>, \<open>NoneOf cs\<close> is \<^verbatim>\<open>[^cs]\<close>.\<close>

fun cls_matches :: "cls \<Rightarrow> char \<Rightarrow> bool" where
  "cls_matches (Lit a) c = (c = a)"
| "cls_matches AnyChar c = (\<not> isLineTerminator c)"
| "cls_matches WordChar c = isWordChar c"
| "cls_matches (NoneOf cs) c = (c \<notin> set cs)"

datatype regex =
    Atom cls
  | Empty
  | Bol
  | Seq regex regex
  | Alt regex regex
  | Star regex
  | Group nat regex

text \<open>
  A matcher state: the index reached, the input still ahead, and the captures made.
\<close>

record mstate =
  pos :: nat
  rest :: string
  caps :: "nat \<rightharpoonup> string"

text \<open>
  \<open>matches r st\<close> lists the states in which \<open>r\<close> can end when started in \<open>st\<close>, in the
  order backtracking tries them: the first is the matcher's choice, the next is taken
  when what follows fails. The star tries one more iteration before stopping, and
  an iteration that consumes nothing is rejected, as in ECMAScript.
\<close>

function matches :: "regex \<Rightarrow> mstate \<Rightarrow> mstate list" where
  "matches (Atom c) st =
     (case rest st of
        [] \<Rightarrow> []
      | x # xs \<Rightarrow> if cls_matches c x then [st\<lparr>pos := Suc (pos st), rest := xs\<rparr>] else [])"
| "matches Empty st = [st]"
| "matches Bol st = (if pos st = 0 then [st] else [])"
| "matches (Seq a b) st = concat (map (matches b) (matches a st))"
| "matches (Alt a b) st = matches a st @ matches b st"
| "matches (Star a) st =
     concat (map (matches (Star a))
                 (filter (\<lambda>st'. length (rest st') < length (rest st)) (matches a st))) @ [st]"
| "matches (Group n a) st =
     map (\<lambda>st'. st'\<lparr>caps := (caps st')(n \<mapsto> take (pos st' - pos st) (rest st))\<rparr>) (matches a st)"
  by pat_completeness auto
termination
  by (relation "inv_image (less_than <*lex*> less_than) (\<lambda>(r, st). (size r, length (rest st)))") auto

declare matches.simps [simp del]

text \<open>A run of literal characters.\<close>

fun lits :: "string \<Rightarrow> regex" where
  "lits [] = Empty"
| "lits (c # cs) = Seq (Atom (Lit c)) (lits cs)"

declare lits.simps [simp del]

definition start :: "nat \<Rightarrow> string \<Rightarrow> mstate" where
  "start i s = \<lparr>pos = i, rest = s, caps = Map.empty\<rparr>"

text \<open>
  \<^verbatim>\<open>String.prototype.match\<close> with a regular expression without the \<^verbatim>\<open>g\<close> flag: the
  match is tried at index 0, then 1, and so on up to the end of the string; the first
  index with a match gives the result, and none gives \<^verbatim>\<open>null\<close>.
\<close>

fun exec_from :: "regex \<Rightarrow> nat \<Rightarrow> string \<Rightarrow> mstate option" where
  "exec_from r i [] = (case matches r (start i []) of [] \<Rightarrow> None | m # _ \<Rightarrow> Some m)"
| "exec_from r i (c # cs) =
     (case matches r (start i (c # cs)) of [] \<Rightarrow> exec_from r (Suc i) cs | m # _ \<Rightarrow> Some m)"

definition exec :: "regex \<Rightarrow> string \<Rightarrow> mstate option" where
  "exec r s = exec_from r 0 s"

section \<open>YouTubeService and the page it loads the iframe API into\<close>

text \<open>
  The fields of \<^verbatim>\<open>class YouTubeService\<close>. \<^verbatim>\<open>_API\<close> is only tested for truthiness and
  handed on, so it is an option: \<open>None\<close> is \<^verbatim>\<open>undefined\<close> (or any falsy value), \<open>Some a\<close> the
  vendor's object. A callback is a token of type \<open>'cb\<close>; what calling it does is given
  by the interpreter passed to \<open>resolveCallbacks\<close>.
\<close>

record ('api, 'cb) YouTubeService =
  isLoadingAPI :: bool
  API_field :: "'api option"
  callbacks :: "'cb list"

text \<open>
  The page globals the code touches: whether \<^verbatim>\<open>window.onYouTubeIframeAPIReady\<close> has
  been assigned, the value of \<^verbatim>\<open>window.YT\<close>, the \<^verbatim>\<open>src\<close> of every script tag appended to
  \<^verbatim>\<open>document.body\<close>, in order, and the timers the modelled code has made by
  \<^verbatim>\<open>setInterval\<close> and not cleared, each with its id and its delay in milliseconds.
\<close>

record 'api page =
  hookInstalled :: bool
  YT :: "'api option"
  scripts :: "string list"
  intervals :: "(nat \<times> nat) list"
  nextIntervalId :: nat

text \<open>
  The state the methods run in: the singleton service, the page, and the state
  \<open>client\<close> of whatever the callbacks act on.
\<close>

record ('api, 'cb, 'c) world =
  service :: "('api, 'cb) YouTubeService"
  page :: "'api page"
  client :: 'c

text \<open>The field initialisers of the class, on a page that has loaded nothing yet.\<close>

definition newService :: "('api, 'cb) YouTubeService" where
  "newService = \<lparr>isLoadingAPI = False, API_field = None, callbacks = []\<rparr>"

definition newPage :: "'api page" where
  "newPage = \<lparr>hookInstalled = False, YT = None, scripts = [], intervals = [], nextIntervalId = 1\<rparr>"

definition newWorld :: "'c \<Rightarrow> ('api, 'cb, 'c) world" where
  "newWorld c = \<lparr>service = newService, page = newPage, client = c\<rparr>"

text \<open>
  The loop of \<^verbatim>\<open>_resolveCallbacks\<close>: \<^verbatim>\<open>for (i = 0; i < max; i++) this._callbacks[i]()\<close>.
  A callback that throws ends the loop, and the exception leaves the method. The
  callbacks are taken not to push to or replace the queue while it is being resolved.
\<close>

fun callAll :: "('cb \<Rightarrow> 'w \<Rightarrow> error + 'w) \<Rightarrow> 'cb list \<Rightarrow> 'w \<Rightarrow> error + 'w" where
  "callAll call [] w = Inr w"
| "callAll call (cb # cbs) w =
     (case call cb w of Inl e \<Rightarrow> Inl e | Inr w' \<Rightarrow> callAll call cbs w')"

definition resolveCallbacks ::
  "('cb \<Rightarrow> ('api, 'cb, 'c) world \<Rightarrow> error + ('api, 'cb, 'c) world) \<Rightarrow>
   ('api, 'cb, 'c) world \<Rightarrow> error + ('api, 'cb, 'c) world" where
  "resolveCallbacks call w =
     (case callAll call (callbacks (service w)) w of
        Inl e \<Rightarrow> Inl e
      | Inr w' \<Rightarrow> Inr (w'\<lparr>service := (service w')\<lparr>callbacks := []\<rparr>\<rparr>))"

definition iframe_api_src :: string where
  "iframe_api_src = ''https://www.youtube.com/iframe_api''"

text \<open>
  \<^verbatim>\<open>_loadAPI\<close>: nothing while a load is in flight; otherwise set the flag, assign the
  page hook and append the script tag.
\<close>

definition private_loadAPI :: "('api, 'cb, 'c) world \<Rightarrow> ('api, 'cb, 'c) world" where
  "private_loadAPI w =
     (if isLoadingAPI (service w) then w
      else w\<lparr>service := (service w)\<lparr>isLoadingAPI := True\<rparr>,
             page := (page w)\<lparr>hookInstalled := True,
                               scripts := scripts (page w) @ [iframe_api_src]\<rparr>\<rparr>)"

text \<open>
  The function assigned to \<^verbatim>\<open>window.onYouTubeIframeAPIReady\<close>, which the vendor's
  script calls once it has run: clear the flag, capture \<^verbatim>\<open>window.YT\<close>, resolve the queue.
\<close>

definition onYouTubeIframeAPIReady ::
  "('cb \<Rightarrow> ('api, 'cb, 'c) world \<Rightarrow> error + ('api, 'cb, 'c) world) \<Rightarrow>
   ('api, 'cb, 'c) world \<Rightarrow> error + ('api, 'cb, 'c) world" where
  "onYouTubeIframeAPIReady call w =
     resolveCallbacks call
       (w\<lparr>service := (service w)\<lparr>isLoadingAPI := False, API_field := YT (page w)\<rparr>\<rparr>)"

text \<open>
  \<^verbatim>\<open>loadAPI(callback?)\<close>: the argument is \<open>Some cb\<close> when \<^verbatim>\<open>typeof callback === 'function'\<close>
  and \<open>None\<close> otherwise.
\<close>

definition loadAPI ::
  "('cb \<Rightarrow> ('api, 'cb, 'c) world \<Rightarrow> error + ('api, 'cb, 'c) world) \<Rightarrow>
   'cb option \<Rightarrow> ('api, 'cb, 'c) world \<Rightarrow> error + ('api, 'cb, 'c) world" where
  "loadAPI call callback w =
     (let w1 = (case callback of
                  Some cb \<Rightarrow> w\<lparr>service := (service w)\<lparr>callbacks := callbacks (service w) @ [cb]\<rparr>\<rparr>
                | None \<Rightarrow> w)
      in if API_field (service w1) \<noteq> None then resolveCallbacks call w1
         else Inr (private_loadAPI w1))"

text \<open>The getter \<^verbatim>\<open>get API()\<close>: the value read, and the state after the read.\<close>

definition get_API :: "('api, 'cb, 'c) world \<Rightarrow> 'api option \<times> ('api, 'cb, 'c) world" where
  "get_API w =
     (if API_field (service w) = None then (None, private_loadAPI w)
      else (API_field (service w), w))"

text \<open>The setter \<^verbatim>\<open>set API(value)\<close> always throws.\<close>

definition set_API :: "'api option \<Rightarrow> ('api, 'cb, 'c) world \<Rightarrow> error + ('api, 'cb, 'c) world" where
  "set_API v w = Inl (Error ''Setting the API is not allowed'')"



subsection \<open>parseYouTubeId\<close>

text \<open>
  The literal
  \<^verbatim>\<open>/^.*(youtu.be\/|v\/|u\/\w\/|embed\/|watch\?v=|\&v=)([^#\&\?]*).*/\<close>:
  \<open>shapeGroup\<close> is the alternation inside the first group, \<open>idGroup\<close> the star inside
  the second.
\<close>

definition shapeGroup :: regex where
  "shapeGroup =
     Alt (Seq (lits ''youtu'') (Seq (Atom AnyChar) (lits ''be/'')))
    (Alt (lits ''v/'')
    (Alt (Seq (lits ''u/'') (Seq (Atom WordChar) (lits ''/'')))
    (Alt (lits ''embed/'')
    (Alt (lits ''watch?v='')
         (lits ''&v='')))))"

definition idGroup :: regex where
  "idGroup = Star (Atom (NoneOf ''#&?''))"

definition youTubeRegex :: regex where
  "youTubeRegex =
     Seq Bol (Seq (Star (Atom AnyChar))
       (Seq (Group 1 shapeGroup) (Seq (Group 2 idGroup) (Star (Atom AnyChar)))))"

text \<open>
  \<^verbatim>\<open>parseYouTubeId\<close>: \<open>Inr None\<close> is the \<^verbatim>\<open>null\<close> it returns. \<^verbatim>\<open>match[2].length\<close> throws a
  \<open>TypeError\<close> if the second group took no part in the match.
\<close>

definition parseYouTubeId :: "string \<Rightarrow> error + string option" where
  "parseYouTubeId youtubeURL =
     (case exec youTubeRegex youtubeURL of
        None \<Rightarrow> Inr None
      | Some m \<Rightarrow>
          (case caps m 2 of
             None \<Rightarrow> Inl TypeError
           | Some g \<Rightarrow> if length g = 11 then Inr (Some g) else Inr None))"

text \<open>
  The URL shapes in the words of the regular expression, for stating what the parser
  finds: \<open>shapeLen s\<close> is the length of the shape marker that \<open>s\<close> begins with, if it
  begins with one; \<open>noShape s\<close> says that no marker begins anywhere in \<open>s\<close>; \<open>idChar\<close>
  are the characters the second group takes.
\<close>

definition shapeLen :: "string \<Rightarrow> nat option" where
  "shapeLen s =
     (if take 5 s = ''youtu'' \<and> drop 5 s \<noteq> [] \<and> \<not> isLineTerminator (hd (drop 5 s))
           \<and> take 3 (drop 6 s) = ''be/'' then Some 9
      else if take 2 s = ''v/'' then Some 2
      else if take 2 s = ''u/'' \<and> drop 2 s \<noteq> [] \<and> isWordChar (hd (drop 2 s))
           \<and> take 1 (drop 3 s) = ''/'' then Some 4
      else if take 6 s = ''embed/'' then Some 6
      else if take 8 s = ''watch?v='' then Some 8
      else if take 3 s = ''&v='' then Some 3
      else None)"

fun noShape :: "string \<Rightarrow> bool" where
  "noShape [] = True"
| "noShape (c # cs) = (shapeLen (c # cs) = None \<and> noShape cs)"

definition idChar :: "char \<Rightarrow> bool" where
  "idChar c = (c \<notin> set ''#&?'')"

text \<open>The matcher state \<open>k\<close> characters further on.\<close>

definition advance :: "nat \<Rightarrow> mstate \<Rightarrow> mstate" where
  "advance k st = st\<lparr>pos := pos st + k, rest := drop k (rest st)\<rparr>"

section \<open>VideoController\<close>

text \<open>
  \<^verbatim>\<open>enum PlayerState\<close> and the numbers TypeScript gives its members; the vendor's
  \<^verbatim>\<open>onStateChange\<close> event carries such a number in \<^verbatim>\<open>event.data\<close>.
\<close>

datatype PlayerState = ENDED | PLAYING | PAUSED | BUFFERING | CUED

fun stateCode :: "PlayerState \<Rightarrow> int" where
  "stateCode ENDED = 0"
| "stateCode PLAYING = 1"
| "stateCode PAUSED = 2"
| "stateCode BUFFERING = 3"
| "stateCode CUED = 4"

text \<open>
  What the controller reads and writes of a native \<^verbatim>\<open>HTMLVideoElement\<close>; \<open>buffered\<close>
  lists the start and end of each range of its \<^verbatim>\<open>TimeRanges\<close>. \<^verbatim>\<open>play()\<close> and \<^verbatim>\<open>pause()\<close>
  clear and set \<open>paused\<close>, an assignment to \<^verbatim>\<open>currentTime\<close> or \<^verbatim>\<open>muted\<close> stores the value,
  \<^verbatim>\<open>load()\<close> is recorded in \<open>loadCalled\<close>.
\<close>

record HTMLVideoElement =
  currentTime :: number
  duration :: number
  paused :: bool
  elementMuted :: bool
  buffered :: "(number \<times> number) list"
  loadCalled :: bool

text \<open>
  The embedded player made by \<^verbatim>\<open>new YT.Player(element, options)\<close>, which is vendor code: the
  options the controller passes, and what the controller's calls read and change. The
  player is taken to apply a command at once: \<^verbatim>\<open>playVideo\<close> and \<^verbatim>\<open>pauseVideo\<close> set the
  state that \<^verbatim>\<open>getPlayerState\<close> returns to Playing and Paused, \<^verbatim>\<open>mute\<close> and \<^verbatim>\<open>unMute\<close>
  set the mute state, \<^verbatim>\<open>seekTo\<close> sets the time. A new player is unstarted (state \<open>-1\<close>).
\<close>

record YTPlayer =
  videoId :: "string option"
  autoplay :: bool
  playerState :: int
  playerTime :: number
  playerDuration :: number
  playerMuted :: bool

definition newPlayer :: "string option \<Rightarrow> bool \<Rightarrow> YTPlayer" where
  "newPlayer vid auto =
     \<lparr>videoId = vid, autoplay = auto, playerState = - 1, playerTime = Num 0,
      playerDuration = Num 0, playerMuted = False\<rparr>"

text \<open>An element with a \<^verbatim>\<open>src\<close> and a \<^verbatim>\<open>data-src\<close> attribute, each present or not.\<close>

record srcElement =
  src :: "string option"
  dataSrc :: "string option"

text \<open>A length written to \<^verbatim>\<open>style.width\<close> or \<^verbatim>\<open>style.left\<close> as \<^verbatim>\<open>n + '%'\<close>.\<close>

datatype css = Percent number

text \<open>
  The container element handed to the constructor, as far as the controller looks at
  it: the \<^verbatim>\<open>data-external\<close> attribute (\<open>None\<close> when absent), the \<^verbatim>\<open>video\<close> elements
  and the elements carrying \<^verbatim>\<open>data-src\<close> inside it, its class list, whether
  \<^verbatim>\<open>firstParentByClass(element, 'modal')\<close> finds an element, the \<^verbatim>\<open>clientWidth\<close> of the
  progress track, and the class list and text of the two time labels. The controls that
  \<^verbatim>\<open>initControls\<close> looks up by class name are taken to be there, as in the markup of the
  video template.
\<close>

record container =
  dataExternal :: "string option"
  videos :: "HTMLVideoElement list"
  srcElements :: "srcElement list"
  rootClasses :: "string set"
  inModal :: bool
  trackWidth :: number
  timeLabelClasses :: "string set"
  timeLabelText :: string
  lengthLabelText :: string

text \<open>
  The fields of \<^verbatim>\<open>class VideoController\<close> (\<open>videoElement\<close>, \<open>youtubePlayer\<close>,
  \<open>youTubeTimer\<close>, \<open>muted\<close>) and the state of the elements it holds: the class list of
  its root element, the progress track's \<^verbatim>\<open>clientWidth\<close>, the elements with a deferred
  source, the inline width of the progress fill, the inline width and left offset of the
  buffer fill, and the class list and text of the current-time label and the text of the
  duration label.
\<close>

record VideoController =
  videoElement :: "HTMLVideoElement option"
  youtubePlayer :: "YTPlayer option"
  youTubeTimer :: "nat option"
  muted :: bool
  classList :: "string set"
  insideModal :: bool
  clientWidth :: number
  sources :: "srcElement list"
  progressBarWidth :: "css option"
  bufferBarWidth :: "css option"
  bufferBarLeft :: "css option"
  currentTimeClasses :: "string set"
  currentTimeText :: string
  lengthText :: string

subsection \<open>Queries\<close>

text \<open>
  \<^verbatim>\<open>getDuration\<close>, \<^verbatim>\<open>getCurrentTime\<close> and \<^verbatim>\<open>isPlaying\<close> return \<^verbatim>\<open>undefined\<close> when
  neither backend is set; their callers use the value in arithmetic, where it is \<open>NaN\<close>,
  or as a condition, where it is false.
\<close>

definition getDuration :: "VideoController \<Rightarrow> number" where
  "getDuration c =
     (case videoElement c of
        Some v \<Rightarrow> duration v
      | None \<Rightarrow> (case youtubePlayer c of Some p \<Rightarrow> playerDuration p | None \<Rightarrow> NaN))"

definition getCurrentTime :: "VideoController \<Rightarrow> number" where
  "getCurrentTime c =
     (case videoElement c of
        Some v \<Rightarrow> currentTime v
      | None \<Rightarrow> (case youtubePlayer c of Some p \<Rightarrow> playerTime p | None \<Rightarrow> NaN))"

definition isPlaying :: "VideoController \<Rightarrow> bool" where
  "isPlaying c =
     (case videoElement c of
        Some v \<Rightarrow> \<not> paused v
      | None \<Rightarrow> (case youtubePlayer c of
                   Some p \<Rightarrow> playerState p = stateCode PLAYING
                 | None \<Rightarrow> False))"

subsection \<open>Play, pause, mute\<close>

definition play :: "VideoController \<Rightarrow> VideoController" where
  "play c =
     c\<lparr>videoElement := map_option (\<lambda>v. v\<lparr>paused := False\<rparr>) (videoElement c),
       youtubePlayer := map_option (\<lambda>p. p\<lparr>playerState := stateCode PLAYING\<rparr>) (youtubePlayer c),
       classList := insert ''video--is-playing'' (classList c)\<rparr>"

definition pause :: "VideoController \<Rightarrow> VideoController" where
  "pause c =
     c\<lparr>videoElement := map_option (\<lambda>v. v\<lparr>paused := True\<rparr>) (videoElement c),
       youtubePlayer := map_option (\<lambda>p. p\<lparr>playerState := stateCode PAUSED\<rparr>) (youtubePlayer c),
       classList := classList c - {''video--is-playing''}\<rparr>"

definition togglePlayPause :: "VideoController \<Rightarrow> VideoController" where
  "togglePlayPause c = (if isPlaying c then pause c else play c)"

definition mute :: "VideoController \<Rightarrow> VideoController" where
  "mute c =
     c\<lparr>muted := True,
       videoElement := map_option (\<lambda>v. v\<lparr>elementMuted := True\<rparr>) (videoElement c),
       youtubePlayer := map_option (\<lambda>p. p\<lparr>playerMuted := True\<rparr>) (youtubePlayer c),
       classList := insert ''video--is-muted'' (classList c)\<rparr>"

definition volumeOn :: "VideoController \<Rightarrow> VideoController" where
  "volumeOn c =
     c\<lparr>muted := False,
       videoElement := map_option (\<lambda>v. v\<lparr>elementMuted := False\<rparr>) (videoElement c),
       youtubePlayer := map_option (\<lambda>p. p\<lparr>playerMuted := False\<rparr>) (youtubePlayer c),
       classList := classList c - {''video--is-muted''}\<rparr>"

definition toggleVolume :: "VideoController \<Rightarrow> VideoController" where
  "toggleVolume c = (if muted c then volumeOn c else mute c)"

definition willDestroy :: "VideoController \<Rightarrow> VideoController" where
  "willDestroy c = pause c"

subsection \<open>Time display\<close>

definition generateTimeIndicator :: "number \<Rightarrow> string" where
  "generateTimeIndicator seconds0 =
     (let minutes = floor_n (divide_n seconds0 (Num 60));
          seconds = round_n (minus_n seconds0 (times_n minutes (Num 60)))
      in (if less_n minutes (Num 10) then ''0'' @ toString minutes else toString minutes @ '''')
         @ '':''
         @ (if less_n seconds (Num 10) then ''0'' @ toString seconds else toString seconds @ ''''))"

definition timeUpdate :: "VideoController \<Rightarrow> VideoController" where
  "timeUpdate c =
     (let currentTime = getCurrentTime c;
          currentPos = currentTime;
          maxduration = getDuration c;
          percentage = divide_n (times_n (Num 100) currentPos) maxduration;
          c1 = (if less_n percentage (Num (9999 / 100))
                then c\<lparr>currentTimeClasses := currentTimeClasses c - {''is-hidden''}\<rparr>
                else c\<lparr>currentTimeClasses := insert ''is-hidden'' (currentTimeClasses c),
                       classList := classList c - {''video--is-playing''}\<rparr>)
      in c1\<lparr>progressBarWidth := Some (Percent percentage),
            currentTimeText := generateTimeIndicator currentTime,
            lengthText := generateTimeIndicator (getDuration c1)\<rparr>)"

subsection \<open>Buffer display\<close>





subsection \<open>Seeking\<close>


subsection \<open>The YouTube player and its state changes\<close>

type_synonym 'api vc_world = "('api, string, VideoController) world"

text \<open>
  \<^verbatim>\<open>setInterval\<close> hands out a fresh id and records the timer; \<^verbatim>\<open>clearInterval\<close> of
  \<^verbatim>\<open>undefined\<close> does nothing.
\<close>

definition setInterval :: "nat \<Rightarrow> 'api page \<Rightarrow> nat \<times> 'api page" where
  "setInterval delay pg =
     (nextIntervalId pg,
      pg\<lparr>intervals := intervals pg @ [(nextIntervalId pg, delay)],
         nextIntervalId := Suc (nextIntervalId pg)\<rparr>)"

definition clearInterval :: "nat option \<Rightarrow> 'api page \<Rightarrow> 'api page" where
  "clearInterval timer pg =
     (case timer of
        None \<Rightarrow> pg
      | Some i \<Rightarrow> pg\<lparr>intervals := filter (\<lambda>t. fst t \<noteq> i) (intervals pg)\<rparr>)"

text \<open>
  \<^verbatim>\<open>initYouTubePlayer\<close>. The callback the constructor hands to \<open>loadAPI\<close> is the closure
  \<^verbatim>\<open>() => this.initYouTubePlayer(external)\<close>; as a token it is the string \<open>external\<close>, and
  calling it is \<open>initYouTubePlayer\<close>. The method reads the \<^verbatim>\<open>API\<close> property twice; the
  second read comes after the first has found the API captured, and changes nothing.
\<close>

definition initYouTubePlayer :: "string \<Rightarrow> 'api vc_world \<Rightarrow> error + 'api vc_world" where
  "initYouTubePlayer youTubeURL w =
     (case get_API w of
        (None, w1) \<Rightarrow> Inl (Error ''No YouTube API available'')
      | (Some api, w1) \<Rightarrow>
          (case parseYouTubeId youTubeURL of
             Inl e \<Rightarrow> Inl e
           | Inr vid \<Rightarrow>
               Inr (w1\<lparr>client := (client w1)
                     \<lparr>youtubePlayer := Some (newPlayer vid (insideModal (client w1)))\<rparr>\<rparr>)))"

text \<open>The \<^verbatim>\<open>onStateChange\<close> listener; \<open>data\<close> is \<^verbatim>\<open>event.data\<close>.\<close>

definition onStateChange :: "int \<Rightarrow> 'api vc_world \<Rightarrow> 'api vc_world" where
  "onStateChange data w =
     (let c = client w;
          w1 =
            (if data = stateCode ENDED then
               w\<lparr>client := c\<lparr>classList := classList c - {''video--is-playing''}\<rparr>,
                 page := clearInterval (youTubeTimer c) (page w)\<rparr>
             else if data = stateCode PLAYING then
               (let (timer, pg) = setInterval 300 (clearInterval (youTubeTimer c) (page w))
                in w\<lparr>client := c\<lparr>classList := insert ''video--is-playing'' (classList c),
                                  youTubeTimer := Some timer\<rparr>,
                      page := pg\<rparr>)
             else if data = stateCode BUFFERING then
               w\<lparr>client := timeUpdate c\<rparr>
             else if data = stateCode PAUSED then
               w\<lparr>client := c\<lparr>classList := classList c - {''video--is-playing''}\<rparr>,
                 page := clearInterval (youTubeTimer c) (page w)\<rparr>
             else if data = stateCode CUED then
               w\<lparr>client := timeUpdate c\<rparr>
             else w)
      in w1\<lparr>client := timeUpdate (client w1)\<rparr>)"

text \<open>
  What can happen to a controller with an embedded player: the player reports a state,
  the poll set up by \<^verbatim>\<open>setInterval\<close> fires, the play or the mute button is clicked, or the
  widget is torn down.
\<close>

datatype vc_event = StateChange int | Tick | ClickPlayPause | ClickVolume | Destroy

fun vc_step :: "vc_event \<Rightarrow> 'api vc_world \<Rightarrow> 'api vc_world" where
  "vc_step (StateChange data) w = onStateChange data w"
| "vc_step Tick w = w\<lparr>client := timeUpdate (client w)\<rparr>"
| "vc_step ClickPlayPause w = w\<lparr>client := togglePlayPause (client w)\<rparr>"
| "vc_step ClickVolume w = w\<lparr>client := toggleVolume (client w)\<rparr>"
| "vc_step Destroy w = w\<lparr>client := willDestroy (client w)\<rparr>"

definition vc_run :: "vc_event list \<Rightarrow> 'api vc_world \<Rightarrow> 'api vc_world" where
  "vc_run es w = fold vc_step es w"

subsection \<open>Construction\<close>

text \<open>
  The field initialisers and \<^verbatim>\<open>initControls\<close>: the controller before either backend
  is set.
\<close>

definition initControls :: "container \<Rightarrow> VideoController" where
  "initControls el =
     \<lparr>videoElement = None, youtubePlayer = None, youTubeTimer = None, muted = False,
      classList = rootClasses el, insideModal = inModal el, clientWidth = trackWidth el,
      sources = srcElements el, progressBarWidth = None, bufferBarWidth = None,
      bufferBarLeft = None, currentTimeClasses = timeLabelClasses el,
      currentTimeText = timeLabelText el, lengthText = lengthLabelText el\<rparr>"

text \<open>The loop over \<^verbatim>\<open>querySelectorAll('[data-src]')\<close>, for one element.\<close>

definition activateSrc :: "srcElement \<Rightarrow> srcElement" where
  "activateSrc e = (case dataSrc e of None \<Rightarrow> e | Some s \<Rightarrow> \<lparr>src = Some s, dataSrc = None\<rparr>)"

definition initVideoPlayer :: "container \<Rightarrow> VideoController \<Rightarrow> error + VideoController" where
  "initVideoPlayer el c =
     (case videos el of
        [] \<Rightarrow> Inl (Error ''No video element found!'')
      | v # vs \<Rightarrow> Inr (c\<lparr>videoElement := Some v\<rparr>))"

text \<open>\<^verbatim>\<open>external.match(/youtu/)\<close> is truthy when the pattern occurs in the string.\<close>

definition matchesYoutu :: "string \<Rightarrow> bool" where
  "matchesYoutu external = (exec (lits ''youtu'') external \<noteq> None)"

text \<open>
  The constructor, on the service and page as they are when it runs. \<^verbatim>\<open>if (external)\<close>
  holds for an attribute that is present and not the empty string.
\<close>

definition newVideoController :: "('api, string, 'c) world \<Rightarrow> container \<Rightarrow> error + 'api vc_world" where
  "newVideoController w el =
     (let w0 = \<lparr>service = service w, page = page w, client = initControls el\<rparr>;
          native =
            (case initVideoPlayer el ((client w0)\<lparr>sources := map activateSrc (sources (client w0))\<rparr>) of
               Inl e \<Rightarrow> Inl e
             | Inr c \<Rightarrow>
                 Inr (w0\<lparr>client :=
                   c\<lparr>videoElement := map_option (\<lambda>v. v\<lparr>loadCalled := True\<rparr>) (videoElement c)\<rparr>\<rparr>));
          built =
            (case dataExternal el of
               None \<Rightarrow> native
             | Some external \<Rightarrow>
                 if external = [] then native
                 else if matchesYoutu external then loadAPI initYouTubePlayer (Some external) w0
                 else Inl (Error ''Unsupportet third partie video''))
      in case built of
           Inl e \<Rightarrow> Inl e
         | Inr w1 \<Rightarrow> Inr (if insideModal (client w1) then w1\<lparr>client := play (client w1)\<rparr> else w1))"




text \<open>
  At most one poll: every timer of the page that is still running is the one the
  controller's \<open>youTubeTimer\<close> names, there is at most one, and ids not yet handed out
  are not in use.
\<close>

definition onePoll :: "'api vc_world \<Rightarrow> bool" where
  "onePoll w =
     (length (intervals (page w)) \<le> 1
      \<and> list_all (\<lambda>t. youTubeTimer (client w) = Some (fst t) \<and> fst t < nextIntervalId (page w))
           (intervals (page w)))"

subsection \<open>Example widgets\<close>

text \<open>
  A container marked for YouTube, a container with one native video that is paused and
  carries the \<^verbatim>\<open>muted\<close> attribute, and the state in which the controller of the first
  container has had its embedded player built on a page that had loaded nothing before.
\<close>

definition youtubeContainer :: container where
  "youtubeContainer =
     \<lparr>dataExternal = Some ''https://youtu.be/dQw4w9WgXcQ'', videos = [], srcElements = [],
      rootClasses = {''video''}, inModal = False, trackWidth = Num 640,
      timeLabelClasses = {}, timeLabelText = ''00:00'', lengthLabelText = ''00:00''\<rparr>"

definition mutedVideo :: HTMLVideoElement where
  "mutedVideo =
     \<lparr>currentTime = Num 0, duration = Num 125, paused = True, elementMuted = True,
      buffered = [(Num 0, Num 10), (Num 20, Num 40)], loadCalled = False\<rparr>"

definition nativeContainer :: container where
  "nativeContainer =
     \<lparr>dataExternal = None, videos = [mutedVideo],
      srcElements = [\<lparr>src = None, dataSrc = Some ''clip.mp4''\<rparr>],
      rootClasses = {''video''}, inModal = False, trackWidth = Num 640,
      timeLabelClasses = {}, timeLabelText = ''00:00'', lengthLabelText = ''00:00''\<rparr>"

definition playerWorld :: "unit vc_world" where
  "playerWorld =
     \<lparr>service = \<lparr>isLoadingAPI = False, API_field = Some (), callbacks = []\<rparr>,
      page = \<lparr>hookInstalled = True, YT = Some (), scripts = [iframe_api_src],
              intervals = [], nextIntervalId = 1\<rparr>,
      client = (initControls youtubeContainer)
        \<lparr>youtubePlayer := Some (newPlayer (Some ''dQw4w9WgXcQ'') False)\<rparr>\<rparr>"

section \<open>Properties of the service\<close>







text \<open>
  C10. Reading the \<open>API\<close> property while no API has been captured returns null and runs
  \<open>_loadAPI\<close>: nothing changes if a load is in flight, otherwise the flag is set, the hook
  installed and one script tag appended. Once an API has been captured, the read returns
  it and changes nothing.
\<close>

theorem get_API_lazy_load:
  "(API_field (service w) = None \<and> isLoadingAPI (service w)
      \<and> get_API w = (None, w))
   \<or> (API_field (service w) = None \<and> \<not> isLoadingAPI (service w)
      \<and> get_API w =
          (None, w\<lparr>service := (service w)\<lparr>isLoadingAPI := True\<rparr>,
                   page := (page w)\<lparr>hookInstalled := True,
                                     scripts := scripts (page w) @ [iframe_api_src]\<rparr>\<rparr>))
   \<or> (\<exists>a. API_field (service w) = Some a \<and> get_API w = (Some a, w))"
  by (cases "API_field (service w)") (auto simp: get_API_def private_loadAPI_def)

theorem get_API_lazy_load_witness:
  "get_API (newWorld () :: (nat, nat, unit) world) =
     (None, \<lparr>service = \<lparr>isLoadingAPI = True, API_field = None, callbacks = []\<rparr>,
            page = \<lparr>hookInstalled = True, YT = None, scripts = [iframe_api_src],
                    intervals = [], nextIntervalId = 1\<rparr>,
            client = ()\<rparr>)
   \<and> get_API (\<lparr>service = \<lparr>isLoadingAPI = False, API_field = Some (7::nat), callbacks = []\<rparr>,
               page = newPage, client = ()\<rparr> :: (nat, nat, unit) world) =
     (Some 7, \<lparr>service = \<lparr>isLoadingAPI = False, API_field = Some 7, callbacks = []\<rparr>,
               page = newPage, client = ()\<rparr>)"
  using get_API_lazy_load [of "newWorld () :: (nat, nat, unit) world"]
    get_API_lazy_load [of "\<lparr>service = \<lparr>isLoadingAPI = False, API_field = Some (7::nat), callbacks = []\<rparr>,
               page = newPage, client = ()\<rparr> :: (nat, nat, unit) world"]
  by (simp add: newWorld_def newService_def newPage_def)

section \<open>Properties of the matcher and of parseYouTubeId\<close>

lemma matches_Empty [simp]: "matches Empty st = [st]"
  by (simp add: matches.simps)

lemma matches_Bol [simp]: "matches Bol st = (if pos st = 0 then [st] else [])"
  by (simp add: matches.simps)

lemma matches_Seq: "matches (Seq a b) st = concat (map (matches b) (matches a st))"
  by (simp add: matches.simps)

lemma matches_Alt: "matches (Alt a b) st = matches a st @ matches b st"
  by (simp add: matches.simps)

lemma advance_0 [simp]: "advance 0 st = st"
  by (simp add: advance_def)

lemma advance_advance: "advance k (advance j st) = advance (j + k) st"
  by (simp add: advance_def add.commute add.left_commute)

lemma advance_sel [simp]:
  "pos (advance k st) = pos st + k"
  "rest (advance k st) = drop k (rest st)"
  "caps (advance k st) = caps st"
  by (simp_all add: advance_def)

lemma matches_Atom:
  "matches (Atom c) st =
     (if rest st \<noteq> [] \<and> cls_matches c (hd (rest st)) then [advance (Suc 0) st] else [])"
  by (cases "rest st") (simp_all add: advance_def matches.simps)

text \<open>A run of literals matches exactly when the input starts with it.\<close>

lemma matches_lits:
  "matches (lits w) st = (if take (length w) (rest st) = w then [advance (length w) st] else [])"
proof (induction w arbitrary: st)
  case Nil
  then show ?case by (simp add: lits.simps)
next
  case (Cons c cs)
  show ?case
  proof (cases "rest st")
    case Nil
    then show ?thesis by (simp add: lits.simps matches_Atom matches_Seq)
  next
    case (Cons x xs)
    then show ?thesis
      using Cons.IH [of "advance (Suc 0) st"]
      by (simp add: lits.simps matches_Atom matches_Seq advance_advance)
  qed
qed

lemma matches_Atom_then:
  "matches (Seq (Atom c) r) st =
     (if rest st \<noteq> [] \<and> cls_matches c (hd (rest st)) then matches r (advance (Suc 0) st) else [])"
  by (simp add: matches_Atom matches_Seq)

lemma matches_lits_then:
  "matches (Seq (lits w) r) st =
     (if take (length w) (rest st) = w then matches r (advance (length w) st) else [])"
  by (simp add: matches_lits matches_Seq)

lemma if_nest: "(if a then (if b then x else []) else []) = (if a \<and> b then x else [])"
  by simp

lemma matches_shapeGroup_raw:
  "matches shapeGroup st =
     (if take 5 (rest st) = ''youtu'' \<and> drop 5 (rest st) \<noteq> []
         \<and> \<not> isLineTerminator (hd (drop 5 (rest st))) \<and> take 3 (drop 6 (rest st)) = ''be/''
      then [advance 9 st] else []) @
     (if take 2 (rest st) = ''v/'' then [advance 2 st] else []) @
     (if take 2 (rest st) = ''u/'' \<and> drop 2 (rest st) \<noteq> []
         \<and> isWordChar (hd (drop 2 (rest st))) \<and> take 1 (drop 3 (rest st)) = ''/''
      then [advance 4 st] else []) @
     (if take 6 (rest st) = ''embed/'' then [advance 6 st] else []) @
     (if take 8 (rest st) = ''watch?v='' then [advance 8 st] else []) @
     (if take 3 (rest st) = ''&v='' then [advance 3 st] else [])"
  unfolding shapeGroup_def
  by (simp add: matches_Alt matches_lits matches_lits_then matches_Atom_then advance_advance
      eval_nat_numeral if_nest split del: if_split cong: if_cong)

text \<open>
  The alternatives begin with different characters, so at most one of them matches at
  a position, and \<open>shapeLen\<close> tells which.
\<close>

lemma matches_shapeGroup:
  "matches shapeGroup st =
     (case shapeLen (rest st) of None \<Rightarrow> [] | Some l \<Rightarrow> [advance l st])"
proof -
  define c1 where "c1 \<longleftrightarrow> take 5 (rest st) = ''youtu'' \<and> drop 5 (rest st) \<noteq> []
         \<and> \<not> isLineTerminator (hd (drop 5 (rest st))) \<and> take 3 (drop 6 (rest st)) = ''be/''"
  define c2 where "c2 \<longleftrightarrow> take 2 (rest st) = ''v/''"
  define c3 where "c3 \<longleftrightarrow> take 2 (rest st) = ''u/'' \<and> drop 2 (rest st) \<noteq> []
         \<and> isWordChar (hd (drop 2 (rest st))) \<and> take 1 (drop 3 (rest st)) = ''/''"
  define c4 where "c4 \<longleftrightarrow> take 6 (rest st) = ''embed/''"
  define c5 where "c5 \<longleftrightarrow> take 8 (rest st) = ''watch?v=''"
  define c6 where "c6 \<longleftrightarrow> take 3 (rest st) = ''&v=''"
  have h1: "hd (rest st) = CHR ''y''" if c1 using that unfolding c1_def by (cases "rest st") auto
  have h2: "hd (rest st) = CHR ''v''" if c2 using that unfolding c2_def by (cases "rest st") auto
  have h3: "hd (rest st) = CHR ''u''" if c3 using that unfolding c3_def by (cases "rest st") auto
  have h4: "hd (rest st) = CHR ''e''" if c4 using that unfolding c4_def by (cases "rest st") auto
  have h5: "hd (rest st) = CHR ''w''" if c5 using that unfolding c5_def by (cases "rest st") auto
  have h6: "hd (rest st) = CHR ''&''" if c6 using that unfolding c6_def by (cases "rest st") auto
  have raw: "matches shapeGroup st =
     (if c1 then [advance 9 st] else []) @ (if c2 then [advance 2 st] else []) @
     (if c3 then [advance 4 st] else []) @ (if c4 then [advance 6 st] else []) @
     (if c5 then [advance 8 st] else []) @ (if c6 then [advance 3 st] else [])"
    unfolding c1_def c2_def c3_def c4_def c5_def c6_def by (rule matches_shapeGroup_raw)
  have len: "shapeLen (rest st) =
     (if c1 then Some 9 else if c2 then Some 2 else if c3 then Some 4 else if c4 then Some 6
      else if c5 then Some 8 else if c6 then Some 3 else None)"
    unfolding c1_def c2_def c3_def c4_def c5_def c6_def shapeLen_def by (rule refl)
  show ?thesis
    unfolding raw len using h1 h2 h3 h4 h5 h6 by auto
qed

lemma rev_upt_Suc: "rev [0..<Suc n] = n # rev [0..<n]"
  by simp

lemma map_advance_shift:
  "map (\<lambda>k. advance k (advance (Suc 0) st)) (rev [0..<Suc n]) @ [st] =
   map (\<lambda>k. advance k st) (rev [0..<Suc (Suc n)])"
proof -
  have "[0..<Suc (Suc n)] = 0 # map Suc [0..<Suc n]"
    by (metis upt_conv_Cons map_Suc_upt zero_less_Suc)
  then have "rev [0..<Suc (Suc n)] = map Suc (rev [0..<Suc n]) @ [0]"
    by (simp only: rev.simps rev_map)
  then show ?thesis
    by (simp add: advance_advance comp_def del: upt_Suc)
qed

text \<open>
  The greedy star of a character atom ends after \<open>k\<close> characters for every \<open>k\<close> up to
  the length of the longest run of matching characters, longest first.
\<close>

lemma matches_Star_Atom:
  "matches (Star (Atom c)) st =
     map (\<lambda>k. advance k st) (rev [0..<Suc (length (takeWhile (cls_matches c) (rest st)))])"
proof (induction "rest st" arbitrary: st)
  case Nil
  then have "rest st = []" by simp
  then show ?case by (simp add: matches.simps(6) matches_Atom)
next
  case (Cons x xs)
  then have r: "rest st = x # xs" by simp
  show ?case
  proof (cases "cls_matches c x")
    case False
    with r show ?thesis by (simp add: matches.simps(6) matches_Atom)
  next
    case True
    have "xs = rest (advance (Suc 0) st)" using r by simp
    from Cons.hyps(1) [OF this]
    have ih: "matches (Star (Atom c)) (advance (Suc 0) st) =
       map (\<lambda>k. advance k (advance (Suc 0) st)) (rev [0..<Suc (length (takeWhile (cls_matches c) xs))])"
      using r by simp
    have "matches (Star (Atom c)) st = matches (Star (Atom c)) (advance (Suc 0) st) @ [st]"
      using r True by (simp add: matches.simps(6) matches_Atom)
    also have "\<dots> = map (\<lambda>k. advance k st) (rev [0..<Suc (Suc (length (takeWhile (cls_matches c) xs)))])"
      unfolding ih by (rule map_advance_shift)
    finally show ?thesis using r True by simp
  qed
qed

lemma matches_Star_Atom_Cons:
  "matches (Star (Atom c)) st =
     advance (length (takeWhile (cls_matches c) (rest st))) st #
     map (\<lambda>k. advance k st) (rev [0..<length (takeWhile (cls_matches c) (rest st))])"
  by (simp only: matches_Star_Atom rev_upt_Suc list.map)

lemma concat_map_rev_upt:
  assumes "p \<le> n" and "\<And>k. p < k \<Longrightarrow> k \<le> n \<Longrightarrow> f k = []"
  shows "concat (map f (rev [0..<Suc n])) = f p @ concat (map f (rev [0..<p]))"
  using assms
proof (induction n)
  case 0
  then show ?case by simp
next
  case (Suc n)
  show ?case
  proof (cases "p = Suc n")
    case True
    then show ?thesis by simp
  next
    case False
    with Suc.prems have "p \<le> n" by simp
    moreover have "f (Suc n) = []" using Suc.prems False by simp
    moreover have "concat (map f (rev [0..<Suc n])) = f p @ concat (map f (rev [0..<p]))"
      using \<open>p \<le> n\<close> Suc.prems(2) by (intro Suc.IH) simp_all
    ultimately show ?thesis
      by (simp only: rev_upt_Suc [of "Suc n"] list.map concat.simps append_Nil)
  qed
qed

lemma concat_map_rev_upt_none:
  assumes "\<And>k. k \<le> n \<Longrightarrow> f k = []"
  shows "concat (map f (rev [0..<Suc n])) = []"
  using assms by (induction n) simp_all

lemma cls_matches_NoneOf: "cls_matches (NoneOf ''#&?'') = idChar"
  by (rule ext) (simp add: idChar_def)

lemma cls_matches_AnyChar: "cls_matches AnyChar = (\<lambda>c. \<not> isLineTerminator c)"
  by (rule ext) simp

text \<open>
  What follows the shape marker always matches, and the matcher's choice for the
  second group is the longest run of id characters.
\<close>

lemma matches_tail_head:
  "\<exists>m ms. matches (Seq (Group 2 idGroup) (Star (Atom AnyChar))) st = m # ms
     \<and> caps m 2 = Some (takeWhile idChar (rest st))"
proof -
  let ?n = "length (takeWhile idChar (rest st))"
  obtain xs where g: "matches (Group 2 idGroup) st =
      (advance ?n st)\<lparr>caps := (caps st)(2 \<mapsto> take ?n (rest st))\<rparr> # xs"
    unfolding idGroup_def
    by (simp add: matches.simps(7) matches_Star_Atom_Cons cls_matches_NoneOf)
  have t: "take ?n (rest st) = takeWhile idChar (rest st)"
    by (rule takeWhile_eq_take [symmetric])
  show ?thesis
    unfolding matches_Seq g
    by (simp add: matches_Star_Atom_Cons t)
qed

lemma matches_tail_caps:
  assumes "m \<in> set (matches (Seq (Group 2 idGroup) (Star (Atom AnyChar))) st)"
  shows "caps m 2 \<noteq> None"
  using assms by (auto simp: matches_Seq matches.simps(7) matches_Star_Atom)

lemma matches_shape_then:
  "matches (Seq (Group n shapeGroup) r) st =
     (case shapeLen (rest st) of
        None \<Rightarrow> []
      | Some l \<Rightarrow> matches r ((advance l st)\<lparr>caps := (caps st)(n \<mapsto> take l (rest st))\<rparr>))"
  by (simp add: matches_Seq matches.simps(7) matches_shapeGroup split: option.split)

text \<open>
  The leading \<^verbatim>\<open>.*\<close> can stop anywhere on the first line; the positions are tried from
  the end of the line backwards.
\<close>

lemma matches_youTubeRegex:
  "matches youTubeRegex (start 0 url) =
     concat (map (\<lambda>k. matches (Seq (Group 1 shapeGroup) (Seq (Group 2 idGroup) (Star (Atom AnyChar))))
                        (advance k (start 0 url)))
                 (rev [0..<Suc (length (takeWhile (\<lambda>c. \<not> isLineTerminator c) url))]))"
  unfolding youTubeRegex_def
  by (simp add: matches_Seq [of Bol] matches_Seq [of "Star (Atom AnyChar)"] matches_Star_Atom
      cls_matches_AnyChar start_def comp_def del: upt_Suc)

lemma matches_youTubeRegex_last:
  assumes "p \<le> length (takeWhile (\<lambda>c. \<not> isLineTerminator c) url)"
    and "shapeLen (drop p url) = Some l"
    and "\<And>k. p < k \<Longrightarrow> k \<le> length (takeWhile (\<lambda>c. \<not> isLineTerminator c) url)
            \<Longrightarrow> shapeLen (drop k url) = None"
  shows "\<exists>m ms. matches youTubeRegex (start 0 url) = m # ms
            \<and> caps m 2 = Some (takeWhile idChar (drop (p + l) url))"
proof -
  let ?f = "\<lambda>k. matches (Seq (Group 1 shapeGroup) (Seq (Group 2 idGroup) (Star (Atom AnyChar))))
                        (advance k (start 0 url))"
  let ?n = "length (takeWhile (\<lambda>c. \<not> isLineTerminator c) url)"
  have later: "?f k = []" if "p < k" "k \<le> ?n" for k
    using assms(3) [OF that] by (simp add: matches_shape_then start_def)
  have split: "concat (map ?f (rev [0..<Suc ?n])) = ?f p @ concat (map ?f (rev [0..<p]))"
    using assms(1) later by (rule concat_map_rev_upt)
  let ?st = "(advance l (advance p (start 0 url)))
      \<lparr>caps := (caps (advance p (start 0 url)))(1 \<mapsto> take l (rest (advance p (start 0 url))))\<rparr>"
  have fp: "?f p = matches (Seq (Group 2 idGroup) (Star (Atom AnyChar))) ?st"
    using assms(2) by (simp add: matches_shape_then start_def)
  obtain m ms where m: "matches (Seq (Group 2 idGroup) (Star (Atom AnyChar))) ?st = m # ms"
      "caps m 2 = Some (takeWhile idChar (rest ?st))"
    using matches_tail_head [of ?st] by blast
  have "rest ?st = drop (p + l) url"
    by (simp add: start_def add.commute)
  with m split fp show ?thesis
    by (simp add: matches_youTubeRegex del: upt_Suc)
qed

lemma matches_youTubeRegex_none:
  assumes "\<And>k. k \<le> length (takeWhile (\<lambda>c. \<not> isLineTerminator c) url) \<Longrightarrow> shapeLen (drop k url) = None"
  shows "matches youTubeRegex (start 0 url) = []"
  unfolding matches_youTubeRegex
  by (rule concat_map_rev_upt_none) (simp add: matches_shape_then start_def assms)

text \<open>The pattern begins with \<^verbatim>\<open>^\<close>, so only the attempt at index 0 can match.\<close>

lemma matches_youTubeRegex_pos:
  "0 < i \<Longrightarrow> matches youTubeRegex (start i s) = []"
  by (simp add: youTubeRegex_def matches_Seq [of Bol] start_def)

lemma exec_from_youTubeRegex_pos:
  "0 < i \<Longrightarrow> exec_from youTubeRegex i s = None"
  by (induction s arbitrary: i) (simp_all add: matches_youTubeRegex_pos)

lemma exec_youTubeRegex:
  "exec youTubeRegex url =
     (case matches youTubeRegex (start 0 url) of [] \<Rightarrow> None | m # _ \<Rightarrow> Some m)"
  by (cases url) (simp_all add: exec_def exec_from_youTubeRegex_pos split: list.split)

lemma matches_youTubeRegex_caps:
  assumes "m \<in> set (matches youTubeRegex st)"
  shows "caps m 2 \<noteq> None"
proof -
  have step: "\<exists>st'. x \<in> set (matches b st')" if "x \<in> set (matches (Seq a b) st)" for x a b st
    using that by (auto simp: matches_Seq)
  from assms obtain s1 where
    "m \<in> set (matches (Seq (Star (Atom AnyChar))
                 (Seq (Group 1 shapeGroup) (Seq (Group 2 idGroup) (Star (Atom AnyChar))))) s1)"
    unfolding youTubeRegex_def using step by blast
  then obtain s2 where
    "m \<in> set (matches (Seq (Group 1 shapeGroup) (Seq (Group 2 idGroup) (Star (Atom AnyChar)))) s2)"
    using step by blast
  then obtain s3 where
    "m \<in> set (matches (Seq (Group 2 idGroup) (Star (Atom AnyChar))) s3)"
    using step by blast
  then show ?thesis by (rule matches_tail_caps)
qed

text \<open>The second group takes part in every match, so the parser never throws.\<close>

lemma parseYouTubeId_total: "\<exists>r. parseYouTubeId url = Inr r"
proof (cases "matches youTubeRegex (start 0 url)")
  case Nil
  then show ?thesis by (simp add: parseYouTubeId_def exec_youTubeRegex)
next
  case (Cons m ms)
  then have "m \<in> set (matches youTubeRegex (start 0 url))" by simp
  then have "caps m 2 \<noteq> None" by (rule matches_youTubeRegex_caps)
  with Cons show ?thesis by (auto simp: parseYouTubeId_def exec_youTubeRegex)
qed

lemma parseYouTubeId_length:
  assumes "parseYouTubeId url = Inr (Some v)"
  shows "length v = 11"
  using assms by (auto simp: parseYouTubeId_def split: option.splits if_splits)

lemma parseYouTubeId_last:
  assumes "p \<le> length (takeWhile (\<lambda>c. \<not> isLineTerminator c) url)"
    and "shapeLen (drop p url) = Some l"
    and "\<And>k. p < k \<Longrightarrow> k \<le> length (takeWhile (\<lambda>c. \<not> isLineTerminator c) url)
            \<Longrightarrow> shapeLen (drop k url) = None"
  shows "parseYouTubeId url =
           Inr (if length (takeWhile idChar (drop (p + l) url)) = 11
                then Some (takeWhile idChar (drop (p + l) url)) else None)"
proof -
  obtain m ms where "matches youTubeRegex (start 0 url) = m # ms"
      "caps m 2 = Some (takeWhile idChar (drop (p + l) url))"
    using matches_youTubeRegex_last [OF assms] by blast
  then show ?thesis by (simp add: parseYouTubeId_def exec_youTubeRegex)
qed

lemma noShape_drop: "noShape s \<Longrightarrow> shapeLen (drop k s) = None"
proof (induction s arbitrary: k)
  case Nil
  then show ?case by (simp add: shapeLen_def)
next
  case (Cons c cs)
  then show ?case by (cases k) simp_all
qed

lemma parseYouTubeId_noShape:
  assumes "noShape url"
  shows "parseYouTubeId url = Inr None"
proof -
  have "matches youTubeRegex (start 0 url) = []"
    by (rule matches_youTubeRegex_none) (rule noShape_drop [OF assms])
  then show ?thesis by (simp add: parseYouTubeId_def exec_youTubeRegex)
qed

lemma parseYouTubeId_shape:
  assumes "\<forall>c\<in>set pre. \<not> isLineTerminator c"
    and "shapeLen (marker @ vid @ tail) = Some (length marker)"
    and "noShape (tl (marker @ vid @ tail))"
    and "\<forall>c\<in>set vid. idChar c"
    and "tail = [] \<or> \<not> idChar (hd tail)"
  shows "parseYouTubeId (pre @ marker @ vid @ tail) =
           Inr (if length vid = 11 then Some vid else None)"
proof -
  define x where "x = marker @ vid @ tail"
  let ?url = "pre @ marker @ vid @ tail"
  let ?n = "length (takeWhile (\<lambda>c. \<not> isLineTerminator c) ?url)"
  have p: "length pre \<le> ?n"
    using assms(1) by (simp add: takeWhile_append2)
  have here: "shapeLen (drop (length pre) ?url) = Some (length marker)"
    using assms(2) by simp
  have later: "shapeLen (drop k ?url) = None" if "length pre < k" for k
  proof -
    from that obtain j where k: "k = length pre + Suc j"
      by (metis less_iff_Suc_add add_Suc_right)
    have "drop k (pre @ x) = drop j (tl x)"
      unfolding k by (simp add: drop_Suc)
    then show ?thesis using noShape_drop [OF assms(3)] by (simp add: x_def)
  qed
  have "takeWhile idChar (vid @ tail) = vid"
    using assms(4,5) by (cases tail) (simp_all add: takeWhile_append2)
  then have "takeWhile idChar (drop (length pre + length marker) ?url) = vid"
    by simp
  with parseYouTubeId_last [OF p here later] show ?thesis by simp
qed

text \<open>Each of the six shapes is a marker for \<open>shapeLen\<close>.\<close>

lemma shapeLen_markers:
  "shapeLen (''youtu.be/'' @ s) = Some 9"
  "shapeLen (''v/'' @ s) = Some 2"
  "isWordChar x \<Longrightarrow> shapeLen (''u/'' @ x # ''/'' @ s) = Some 4"
  "shapeLen (''embed/'' @ s) = Some 6"
  "shapeLen (''watch?v='' @ s) = Some 8"
  "shapeLen (''&v='' @ s) = Some 3"
  by (simp_all add: shapeLen_def isLineTerminator_def)

text \<open>
  C2, as the code has it. The shape markers are the six alternatives of the regular
  expression: \<open>youtu\<close>, any character, \<open>be/\<close>; \<open>v/\<close>; \<open>u/\<close>, a word character, \<open>/\<close>;
  \<open>embed/\<close>; \<open>watch?v=\<close>; \<open>&v=\<close>. If a URL is \<open>pre\<close>, a marker, \<open>vid\<close>, \<open>tail\<close>,
  where \<open>pre\<close> has no line terminator, no marker begins after the start of this one,
  \<open>vid\<close> has none of the characters \<open>#\<close>, \<open>&\<close>, \<open>?\<close> and \<open>tail\<close> is empty or begins with one
  of them, then the parser returns \<open>vid\<close> if it has exactly 11 characters and null
  otherwise. If no marker begins anywhere in the URL, it returns null. It never returns
  an id that is not 11 characters long, and it never throws.
\<close>

theorem parseYouTubeId_last_shape:
  "((\<forall>c\<in>set pre. \<not> isLineTerminator c)
      \<and> shapeLen (marker @ vid @ tail) = Some (length marker)
      \<and> noShape (tl (marker @ vid @ tail))
      \<and> (\<forall>c\<in>set vid. idChar c)
      \<and> (tail = [] \<or> \<not> idChar (hd tail))
     \<longrightarrow> parseYouTubeId (pre @ marker @ vid @ tail) = Inr (if length vid = 11 then Some vid else None))
   \<and> (noShape url \<longrightarrow> parseYouTubeId url = Inr None)
   \<and> (\<forall>v. parseYouTubeId url = Inr (Some v) \<longrightarrow> length v = 11)
   \<and> (\<exists>r. parseYouTubeId url = Inr r)
   \<and> shapeLen (''youtu.be/'' @ s) = Some (length ''youtu.be/'')
   \<and> shapeLen (''v/'' @ s) = Some (length ''v/'')
   \<and> (isWordChar x \<longrightarrow> shapeLen (''u/'' @ x # ''/'' @ s) = Some (length (''u/'' @ x # ''/'')))
   \<and> shapeLen (''embed/'' @ s) = Some (length ''embed/'')
   \<and> shapeLen (''watch?v='' @ s) = Some (length ''watch?v='')
   \<and> shapeLen (''&v='' @ s) = Some (length ''&v='')"
proof -
  have markers: "shapeLen (''youtu.be/'' @ s) = Some (length ''youtu.be/'')
      \<and> shapeLen (''v/'' @ s) = Some (length ''v/'')
      \<and> (isWordChar x \<longrightarrow> shapeLen (''u/'' @ x # ''/'' @ s) = Some (length (''u/'' @ x # ''/'')))
      \<and> shapeLen (''embed/'' @ s) = Some (length ''embed/'')
      \<and> shapeLen (''watch?v='' @ s) = Some (length ''watch?v='')
      \<and> shapeLen (''&v='' @ s) = Some (length ''&v='')"
    using shapeLen_markers(1,2,4,5,6) [of s] shapeLen_markers(3) [of x s] by simp
  show ?thesis
    using parseYouTubeId_shape [of pre marker vid tail] parseYouTubeId_noShape [of url]
      parseYouTubeId_length [of url] parseYouTubeId_total [of url] markers
    by blast
qed

theorem parseYouTubeId_last_shape_witness:
  "parseYouTubeId ''https://www.youtube.com/watch?v=dQw4w9WgXcQ&t=42s'' = Inr (Some ''dQw4w9WgXcQ'')
   \<and> parseYouTubeId ''https://example.com/clip.mp4'' = Inr None
   \<and> shapeLen ''u/a/dQw4w9WgXcQ'' = Some 4"
proof -
  have a: "\<forall>c\<in>set ''https://www.youtube.com/''. \<not> isLineTerminator c"
    by (simp add: isLineTerminator_def)
  have b: "shapeLen (''watch?v='' @ ''dQw4w9WgXcQ'' @ ''&t=42s'') = Some (length ''watch?v='')"
    by (simp add: shapeLen_def)
  have c: "noShape (tl (''watch?v='' @ ''dQw4w9WgXcQ'' @ ''&t=42s''))"
    by (simp add: shapeLen_def)
  have d: "\<forall>c\<in>set ''dQw4w9WgXcQ''. idChar c"
    by (simp add: idChar_def)
  have e: "''&t=42s'' = [] \<or> \<not> idChar (hd ''&t=42s'')"
    by (simp add: idChar_def)
  have f: "noShape ''https://example.com/clip.mp4''"
    by (simp add: shapeLen_def)
  have g: "isWordChar CHR ''a''"
    by (simp add: isWordChar_def)
  show ?thesis
    using parseYouTubeId_last_shape [of "''https://www.youtube.com/''" "''watch?v=''" "''dQw4w9WgXcQ''"
        "''&t=42s''" "''https://example.com/clip.mp4''" "''dQw4w9WgXcQ''" "CHR ''a''"] a b c d e f g
    by simp
qed

text \<open>
  C2 as stated fails twice. A URL of the shape \<open>?v=\<close> that does not read \<open>watch?v=\<close>
  is not recognised; and a marker that occurs again later in the URL (here the \<open>v/\<close>
  of \<open>dev/\<close>) takes the place of the one before the id.
\<close>

theorem parseYouTubeId_counterexample:
  "parseYouTubeId ''https://www.youtube.com/?v=dQw4w9WgXcQ'' = Inr None
   \<and> parseYouTubeId ''https://www.youtube.com/embed/dQw4w9WgXcQ?origin=https://example.dev/'' = Inr None"
proof -
  have "noShape ''https://www.youtube.com/?v=dQw4w9WgXcQ''"
    by (simp add: shapeLen_def)
  then have first: "parseYouTubeId ''https://www.youtube.com/?v=dQw4w9WgXcQ'' = Inr None"
    by (rule parseYouTubeId_noShape)
  have "parseYouTubeId (''https://www.youtube.com/embed/dQw4w9WgXcQ?origin=https://example.de'' @ ''v/'' @ [] @ [])
          = Inr (if length ([] :: string) = 11 then Some [] else None)"
    by (rule parseYouTubeId_shape) (simp_all add: isLineTerminator_def shapeLen_def)
  then have second: "parseYouTubeId ''https://www.youtube.com/embed/dQw4w9WgXcQ?origin=https://example.dev/'' = Inr None"
    by simp
  from first second show ?thesis by simp
qed

section \<open>Properties of the time indicator\<close>








lemma toString_of_int: "0 \<le> i \<Longrightarrow> toString (Num (of_int i)) = show_nat (nat i)"
  by (simp add: show_int_def)











section \<open>Properties of seeking and rendering\<close>

lemma round_n_Num: "round_n (Num x) = Num (of_int (round x))"
  by (simp add: round_def)





subsection \<open>The buffer display\<close>







section \<open>Properties of the polling timer\<close>

lemma timeUpdate_youTubeTimer [simp]: "youTubeTimer (timeUpdate c) = youTubeTimer c"
  by (simp add: timeUpdate_def Let_def)

lemma togglePlayPause_youTubeTimer [simp]: "youTubeTimer (togglePlayPause c) = youTubeTimer c"
  by (simp add: togglePlayPause_def play_def pause_def)

lemma toggleVolume_youTubeTimer [simp]: "youTubeTimer (toggleVolume c) = youTubeTimer c"
  by (simp add: toggleVolume_def mute_def volumeOn_def)

lemma willDestroy_youTubeTimer [simp]: "youTubeTimer (willDestroy c) = youTubeTimer c"
  by (simp add: willDestroy_def pause_def)

lemma onePoll_empty: "intervals (page w) = [] \<Longrightarrow> onePoll w"
  by (simp add: onePoll_def)

text \<open>Clearing the timer the controller remembers leaves no timer running.\<close>

lemma clearInterval_onePoll:
  assumes "onePoll w"
  shows "intervals (clearInterval (youTubeTimer (client w)) (page w)) = []"
proof (cases "intervals (page w)")
  case Nil
  then show ?thesis by (simp add: clearInterval_def split: option.split)
next
  case (Cons t ts)
  with assms have "ts = []" and "youTubeTimer (client w) = Some (fst t)"
    by (simp_all add: onePoll_def)
  with Cons show ?thesis by (simp add: clearInterval_def)
qed

lemma clearInterval_nextIntervalId [simp]:
  "nextIntervalId (clearInterval timer pg) = nextIntervalId pg"
  by (simp add: clearInterval_def split: option.split)

lemma onStateChange_stops:
  assumes "onePoll w" and "data = stateCode ENDED \<or> data = stateCode PAUSED"
  shows "intervals (page (onStateChange data w)) = []"
  using assms(2) clearInterval_onePoll [OF assms(1)]
  by (auto simp: onStateChange_def Let_def)

lemma onStateChange_playing:
  assumes "onePoll w"
  shows "intervals (page (onStateChange (stateCode PLAYING) w)) = [(nextIntervalId (page w), 300)]"
    and "youTubeTimer (client (onStateChange (stateCode PLAYING) w)) = Some (nextIntervalId (page w))"
    and "nextIntervalId (page (onStateChange (stateCode PLAYING) w)) = Suc (nextIntervalId (page w))"
  using clearInterval_onePoll [OF assms]
  by (simp_all add: onStateChange_def Let_def setInterval_def)

lemma onStateChange_keeps:
  assumes "data \<noteq> stateCode ENDED" and "data \<noteq> stateCode PLAYING" and "data \<noteq> stateCode PAUSED"
  shows "page (onStateChange data w) = page w"
    and "youTubeTimer (client (onStateChange data w)) = youTubeTimer (client w)"
  using assms by (simp_all add: onStateChange_def Let_def)

lemma onStateChange_onePoll:
  assumes "onePoll w"
  shows "onePoll (onStateChange data w)"
proof -
  consider "data = stateCode ENDED \<or> data = stateCode PAUSED" | "data = stateCode PLAYING"
    | "data \<noteq> stateCode ENDED \<and> data \<noteq> stateCode PLAYING \<and> data \<noteq> stateCode PAUSED"
    by blast
  then show ?thesis
  proof cases
    case 1
    then show ?thesis using onStateChange_stops [OF assms] by (simp add: onePoll_empty)
  next
    case 2
    then show ?thesis using onStateChange_playing [OF assms] by (simp add: onePoll_def)
  next
    case 3
    then show ?thesis using assms onStateChange_keeps [of data w] by (simp add: onePoll_def)
  qed
qed

lemma vc_step_onePoll:
  assumes "onePoll w"
  shows "onePoll (vc_step e w)"
proof (cases e)
  case (StateChange data)
  then show ?thesis using assms by (simp add: onStateChange_onePoll)
qed (use assms in \<open>simp_all add: onePoll_def\<close>)

lemma vc_run_onePoll:
  assumes "onePoll w"
  shows "onePoll (vc_run es w)"
  using assms unfolding vc_run_def
  by (induction es arbitrary: w) (simp_all add: vc_step_onePoll)

text \<open>
  C3, as the code has it. In a state with at most one poll, the poll being the timer the
  controller remembers: when the player reports Ended or Paused no timer is left; when
  it reports Playing the timer left is exactly one new 300 ms timer, which the controller
  remembers; when it reports Buffering, Cued or any other state the timers are as
  before; teardown leaves the timers as they are, and none is left once the player then
  reports Paused. Whatever the player reports and whatever is clicked, from a state
  with at most one poll (such as one with no timer) there is at most one poll.
\<close>

theorem poll_timer_transitions:
  assumes "onePoll w"
  shows "(data = stateCode ENDED \<or> data = stateCode PAUSED \<longrightarrow>
            intervals (page (onStateChange data w)) = [])
    \<and> intervals (page (onStateChange (stateCode PLAYING) w)) = [(nextIntervalId (page w), 300)]
    \<and> youTubeTimer (client (onStateChange (stateCode PLAYING) w)) = Some (nextIntervalId (page w))
    \<and> (data \<noteq> stateCode ENDED \<and> data \<noteq> stateCode PLAYING \<and> data \<noteq> stateCode PAUSED \<longrightarrow>
          intervals (page (onStateChange data w)) = intervals (page w))
    \<and> intervals (page (vc_step Destroy w)) = intervals (page w)
    \<and> intervals (page (onStateChange (stateCode PAUSED) (vc_step Destroy w))) = []
    \<and> onePoll (vc_run es w)
    \<and> length (intervals (page (vc_run es w))) \<le> 1"
proof -
  have "onePoll (vc_step Destroy w)" using assms by (rule vc_step_onePoll)
  then have "intervals (page (onStateChange (stateCode PAUSED) (vc_step Destroy w))) = []"
    by (rule onStateChange_stops) simp
  moreover have "onePoll (vc_run es w)" using assms by (rule vc_run_onePoll)
  moreover from this have "length (intervals (page (vc_run es w))) \<le> 1"
    by (simp add: onePoll_def)
  ultimately show ?thesis
    using onStateChange_stops [OF assms, of data] onStateChange_playing [OF assms]
      onStateChange_keeps(1) [of data w]
    by simp
qed

theorem poll_timer_transitions_witness:
  "intervals (page (onStateChange (stateCode PLAYING) playerWorld)) = [(1, 300)]
   \<and> youTubeTimer (client (onStateChange (stateCode PLAYING) playerWorld)) = Some 1
   \<and> intervals (page (onStateChange (stateCode PAUSED) playerWorld)) = []
   \<and> length (intervals (page (vc_run [StateChange 1, StateChange 3, StateChange 1, Tick] playerWorld))) \<le> 1"
proof -
  have "onePoll playerWorld"
    by (rule onePoll_empty) (simp add: playerWorld_def)
  from poll_timer_transitions [OF this, of "stateCode PAUSED" "[StateChange 1, StateChange 3, StateChange 1, Tick]"]
  show ?thesis by (simp add: playerWorld_def)
qed

text \<open>
  C3 as stated fails: after Playing, the report of Buffering leaves the poll running,
  and so does teardown.
\<close>

theorem poll_timer_counterexample:
  "intervals (page (vc_run [StateChange (stateCode PLAYING), StateChange (stateCode BUFFERING)] playerWorld))
     = [(1, 300)]
   \<and> intervals (page (vc_run [StateChange (stateCode PLAYING), Destroy] playerWorld)) = [(1, 300)]"
proof -
  have p: "onePoll playerWorld"
    by (rule onePoll_empty) (simp add: playerWorld_def)
  have playing: "intervals (page (onStateChange (stateCode PLAYING) playerWorld)) = [(1, 300)]"
    using onStateChange_playing(1) [OF p] by (simp add: playerWorld_def)
  have "page (onStateChange (stateCode BUFFERING) (onStateChange (stateCode PLAYING) playerWorld))
      = page (onStateChange (stateCode PLAYING) playerWorld)"
    by (rule onStateChange_keeps) simp_all
  with playing show ?thesis by (simp add: vc_run_def)
qed

section \<open>Properties of the constructor\<close>

lemma take_is_prefix: "(take (length w) s = w) = (\<exists>b. s = w @ b)"
proof
  assume "take (length w) s = w"
  then have "s = w @ drop (length w) s" by (metis append_take_drop_id)
  then show "\<exists>b. s = w @ b" ..
next
  assume "\<exists>b. s = w @ b"
  then show "take (length w) s = w" by auto
qed

text \<open>A pattern of literals is found by \<open>exec\<close> exactly in the strings that contain it.\<close>

lemma exec_from_lits: "(exec_from (lits w) i s \<noteq> None) = (\<exists>a b. s = a @ w @ b)"
proof (induction s arbitrary: i)
  case Nil
  show ?case by (auto simp: matches_lits start_def)
next
  case (Cons c cs)
  show ?case
  proof (cases "take (length w) (c # cs) = w")
    case True
    then obtain b where "c # cs = [] @ w @ b" using take_is_prefix [of w "c # cs"] by auto
    then have "\<exists>a b. c # cs = a @ w @ b" by blast
    with True show ?thesis by (simp add: matches_lits start_def)
  next
    case False
    have "(\<exists>a b. c # cs = a @ w @ b) = (\<exists>a b. cs = a @ w @ b)"
    proof
      assume "\<exists>a b. c # cs = a @ w @ b"
      then obtain a b where ab: "c # cs = a @ w @ b" by blast
      show "\<exists>a b. cs = a @ w @ b"
      proof (cases a)
        case Nil
        with ab have "take (length w) (c # cs) = w" by (simp add: take_is_prefix)
        with False show ?thesis by simp
      next
        case (Cons x xs)
        with ab have "cs = xs @ w @ b" by simp
        then show ?thesis by blast
      qed
    next
      assume "\<exists>a b. cs = a @ w @ b"
      then obtain a b where "cs = a @ w @ b" by blast
      then have "c # cs = (c # a) @ w @ b" by simp
      then show "\<exists>a b. c # cs = a @ w @ b" by blast
    qed
    with False Cons.IH [of "Suc i"] show ?thesis by (simp add: matches_lits start_def)
  qed
qed

lemma matchesYoutu_iff: "matchesYoutu s = (\<exists>a b. s = a @ ''youtu'' @ b)"
  unfolding matchesYoutu_def exec_def by (rule exec_from_lits)









lemma matchesYoutu_youtubeContainer: "matchesYoutu ''https://youtu.be/dQw4w9WgXcQ''"
proof -
  have "''https://youtu.be/dQw4w9WgXcQ'' = ''https://'' @ ''youtu'' @ ''.be/dQw4w9WgXcQ''"
    by simp
  then show ?thesis unfolding matchesYoutu_iff by blast
qed


text \<open>
  Construction on a fresh page: a YouTube container leaves the controller without a
  backend and its callback queued; a native container gives the controller its video.
\<close>

lemma construct_youtubeContainer:
  "newVideoController (newWorld () :: (unit, string, unit) world) youtubeContainer =
     Inr \<lparr>service = \<lparr>isLoadingAPI = True, API_field = None,
                      callbacks = [''https://youtu.be/dQw4w9WgXcQ'']\<rparr>,
          page = newPage\<lparr>hookInstalled := True, scripts := [iframe_api_src]\<rparr>,
          client = initControls youtubeContainer\<rparr>"
proof -
  have "dataExternal youtubeContainer = Some ''https://youtu.be/dQw4w9WgXcQ''"
    and "\<not> inModal youtubeContainer"
    by (simp_all add: youtubeContainer_def)
  then show ?thesis
    using matchesYoutu_youtubeContainer
    by (simp add: newVideoController_def Let_def loadAPI_def private_loadAPI_def newWorld_def
        newService_def newPage_def initControls_def)
qed

lemma construct_nativeContainer:
  "newVideoController (newWorld () :: (unit, string, unit) world) nativeContainer =
     Inr \<lparr>service = newService, page = newPage,
          client = (initControls nativeContainer)
            \<lparr>sources := [\<lparr>src = Some ''clip.mp4'', dataSrc = None\<rparr>],
             videoElement := Some (mutedVideo\<lparr>loadCalled := True\<rparr>)\<rparr>\<rparr>"
  by (simp add: newVideoController_def Let_def initVideoPlayer_def activateSrc_def newWorld_def
      initControls_def nativeContainer_def)

lemma parseYouTubeId_youtubeContainer:
  "parseYouTubeId ''https://youtu.be/dQw4w9WgXcQ'' = Inr (Some ''dQw4w9WgXcQ'')"
  using parseYouTubeId_shape [of "''https://''" "''youtu.be/''" "''dQw4w9WgXcQ''" "[]"]
  by (simp add: shapeLen_def idChar_def isLineTerminator_def)

text \<open>
  When the vendor's script then sets \<^verbatim>\<open>window.YT\<close> and calls the hook, the queued callback
  builds the player: this is the state \<open>playerWorld\<close>.
\<close>

lemma playerWorld_reached:
  "onYouTubeIframeAPIReady initYouTubePlayer
     \<lparr>service = \<lparr>isLoadingAPI = True, API_field = None,
                  callbacks = [''https://youtu.be/dQw4w9WgXcQ'']\<rparr>,
      page = newPage\<lparr>hookInstalled := True, YT := Some (), scripts := [iframe_api_src]\<rparr>,
      client = initControls youtubeContainer\<rparr>
   = Inr playerWorld"
  by (simp add: onYouTubeIframeAPIReady_def resolveCallbacks_def initYouTubePlayer_def
      get_API_def parseYouTubeId_youtubeContainer playerWorld_def newPage_def
      initControls_def youtubeContainer_def)



section \<open>Properties of the toggles\<close>

lemma togglePlayPause_twice:
  assumes "videoElement c \<noteq> None \<or> youtubePlayer c \<noteq> None"
    and "(''video--is-playing'' \<in> classList c) = isPlaying c"
  shows "isPlaying (togglePlayPause (togglePlayPause c)) = isPlaying c"
    and "classList (togglePlayPause (togglePlayPause c)) = classList c"
    and "\<forall>v. videoElement c = Some v \<longrightarrow> videoElement (togglePlayPause (togglePlayPause c)) = Some v"
proof -
  show "isPlaying (togglePlayPause (togglePlayPause c)) = isPlaying c"
    using assms
    by (cases "videoElement c"; cases "youtubePlayer c")
      (auto simp: togglePlayPause_def isPlaying_def play_def pause_def)
  show "classList (togglePlayPause (togglePlayPause c)) = classList c"
    using assms
    by (cases "videoElement c"; cases "youtubePlayer c")
      (auto simp: togglePlayPause_def isPlaying_def play_def pause_def)
  show "\<forall>v. videoElement c = Some v \<longrightarrow> videoElement (togglePlayPause (togglePlayPause c)) = Some v"
    using assms
    by (cases "youtubePlayer c")
      (auto simp: togglePlayPause_def isPlaying_def play_def pause_def)
qed

lemma toggleVolume_twice:
  assumes "(''video--is-muted'' \<in> classList c) = muted c"
    and "\<forall>v. videoElement c = Some v \<longrightarrow> elementMuted v = muted c"
    and "\<forall>p. youtubePlayer c = Some p \<longrightarrow> playerMuted p = muted c"
  shows "toggleVolume (toggleVolume c) = c"
proof -
  have v: "map_option (\<lambda>v. v\<lparr>elementMuted := muted c\<rparr>) (videoElement c) = videoElement c"
    using assms(2) by (cases "videoElement c") simp_all
  have p: "map_option (\<lambda>p. p\<lparr>playerMuted := muted c\<rparr>) (youtubePlayer c) = youtubePlayer c"
    using assms(3) by (cases "youtubePlayer c") simp_all
  show ?thesis
  proof (cases "muted c")
    case True
    then have "insert ''video--is-muted'' (classList c - {''video--is-muted''}) = classList c"
      using assms(1) by auto
    with True v p show ?thesis
      by (simp add: toggleVolume_def mute_def volumeOn_def option.map_comp comp_def)
  next
    case False
    then have "insert ''video--is-muted'' (classList c) - {''video--is-muted''} = classList c"
      using assms(1) by auto
    with False v p show ?thesis
      by (simp add: toggleVolume_def mute_def volumeOn_def option.map_comp comp_def)
  qed
qed

text \<open>
  C9, as the code has it. If a backend is set and the playing class is on the root
  exactly when the backend is playing, two play/pause toggles bring the playing status
  and the class list back, and the native video element with them. If the muted class,
  the mute state of the backends that are set and the controller's mute flag agree, two
  mute toggles bring the whole controller back.
\<close>

theorem toggles_twice:
  "((videoElement c \<noteq> None \<or> youtubePlayer c \<noteq> None)
      \<and> (''video--is-playing'' \<in> classList c) = isPlaying c
     \<longrightarrow> isPlaying (togglePlayPause (togglePlayPause c)) = isPlaying c
         \<and> classList (togglePlayPause (togglePlayPause c)) = classList c
         \<and> (\<forall>v. videoElement c = Some v \<longrightarrow>
               videoElement (togglePlayPause (togglePlayPause c)) = Some v))
   \<and> ((''video--is-muted'' \<in> classList c) = muted c
      \<and> (\<forall>v. videoElement c = Some v \<longrightarrow> elementMuted v = muted c)
      \<and> (\<forall>p. youtubePlayer c = Some p \<longrightarrow> playerMuted p = muted c)
     \<longrightarrow> toggleVolume (toggleVolume c) = c)"
  using togglePlayPause_twice [of c] toggleVolume_twice [of c] by blast

theorem toggles_twice_witness:
  "isPlaying (togglePlayPause (togglePlayPause (client playerWorld))) = isPlaying (client playerWorld)
   \<and> classList (togglePlayPause (togglePlayPause (client playerWorld))) = classList (client playerWorld)
   \<and> toggleVolume (toggleVolume (client playerWorld)) = client playerWorld"
proof -
  have a: "videoElement (client playerWorld) \<noteq> None \<or> youtubePlayer (client playerWorld) \<noteq> None"
    by (simp add: playerWorld_def)
  have b: "(''video--is-playing'' \<in> classList (client playerWorld)) = isPlaying (client playerWorld)"
    by (simp add: playerWorld_def initControls_def youtubeContainer_def isPlaying_def newPlayer_def)
  have c: "(''video--is-muted'' \<in> classList (client playerWorld)) = muted (client playerWorld)"
    by (simp add: playerWorld_def initControls_def youtubeContainer_def)
  have d: "\<forall>v. videoElement (client playerWorld) = Some v \<longrightarrow> elementMuted v = muted (client playerWorld)"
    by (simp add: playerWorld_def initControls_def)
  have e: "\<forall>p. youtubePlayer (client playerWorld) = Some p \<longrightarrow> playerMuted p = muted (client playerWorld)"
    by (simp add: playerWorld_def initControls_def newPlayer_def)
  from toggles_twice [of "client playerWorld"] a b c d e show ?thesis by blast
qed

text \<open>
  C9 as stated fails in states the constructor produces. A YouTube widget whose player
  has not been built yet has no playing class; after two play/pause toggles it has one.
  A native widget whose video element carries the \<^verbatim>\<open>muted\<close> attribute has a muted
  element; after two mute toggles the element is not muted.
\<close>

theorem toggles_counterexample:
  "newVideoController (newWorld () :: (unit, string, unit) world) youtubeContainer =
     Inr \<lparr>service = \<lparr>isLoadingAPI = True, API_field = None,
                      callbacks = [''https://youtu.be/dQw4w9WgXcQ'']\<rparr>,
          page = newPage\<lparr>hookInstalled := True, scripts := [iframe_api_src]\<rparr>,
          client = initControls youtubeContainer\<rparr>
   \<and> ''video--is-playing'' \<notin> classList (initControls youtubeContainer)
   \<and> ''video--is-playing'' \<in> classList (togglePlayPause (togglePlayPause (initControls youtubeContainer)))
   \<and> newVideoController (newWorld () :: (unit, string, unit) world) nativeContainer =
     Inr \<lparr>service = newService, page = newPage,
          client = (initControls nativeContainer)
            \<lparr>sources := [\<lparr>src = Some ''clip.mp4'', dataSrc = None\<rparr>],
             videoElement := Some (mutedVideo\<lparr>loadCalled := True\<rparr>)\<rparr>\<rparr>
   \<and> elementMuted (mutedVideo\<lparr>loadCalled := True\<rparr>)
   \<and> map_option elementMuted (videoElement (toggleVolume (toggleVolume
        ((initControls nativeContainer)
            \<lparr>sources := [\<lparr>src = Some ''clip.mp4'', dataSrc = None\<rparr>],
             videoElement := Some (mutedVideo\<lparr>loadCalled := True\<rparr>)\<rparr>)))) = Some False"
proof -
  have a: "''video--is-playing'' \<notin> classList (initControls youtubeContainer)"
    by (simp add: initControls_def youtubeContainer_def)
  have b: "''video--is-playing'' \<in> classList (togglePlayPause (togglePlayPause (initControls youtubeContainer)))"
    by (simp add: togglePlayPause_def isPlaying_def play_def initControls_def)
  have c: "elementMuted (mutedVideo\<lparr>loadCalled := True\<rparr>)"
    by (simp add: mutedVideo_def)
  have d: "map_option elementMuted (videoElement (toggleVolume (toggleVolume
        ((initControls nativeContainer)
            \<lparr>sources := [\<lparr>src = Some ''clip.mp4'', dataSrc = None\<rparr>],
             videoElement := Some (mutedVideo\<lparr>loadCalled := True\<rparr>)\<rparr>)))) = Some False"
    by (simp add: toggleVolume_def mute_def volumeOn_def initControls_def)
  from construct_youtubeContainer construct_nativeContainer a b c d show ?thesis
    by (intro conjI)
qed

end
